theory Spec2Isabelle
  imports Complex_Main
begin

section \<open>Position-sensitive RoI pooling: the Python module \<^verbatim>\<open>utils/psroi_module.py\<close>\<close>

text \<open>
  Python integers are unbounded and are modelled as \<^typ>\<open>int\<close>; the operators \<^verbatim>\<open>//\<close> and
  \<^verbatim>\<open>%\<close> on them are floor division and its remainder, which is what \<open>div\<close> and \<open>mod\<close> on
  \<^typ>\<open>int\<close> are, except that Python raises \<^verbatim>\<open>ZeroDivisionError\<close> for a zero divisor.
  Floating-point numbers are idealised as \<^typ>\<open>real\<close>. Every exception the module can raise
  is a value of \<open>py_error\<close>, and a function that can raise returns \<open>py_error + 'a\<close>.
\<close>

subsection \<open>Exceptions, tensors and effects\<close>

datatype py_error = ValueError | TypeError | IndexError | ZeroDivisionError | RuntimeError

text \<open>
  A contiguous tensor: its sizes (never negative in PyTorch) and its elements in row-major
  order.
\<close>

record 'a tensor =
  shape :: "nat list"
  data :: "'a list"

definition numel :: "'a tensor \<Rightarrow> nat" where
  "numel t = prod_list (shape t)"

text \<open>
  \<^verbatim>\<open>torch.zeros(*dims)\<close>: a fresh tensor filled with zeros; PyTorch raises
  \<^verbatim>\<open>RuntimeError\<close> for a negative size.
\<close>

definition zeros :: "int list \<Rightarrow> py_error + ('a::zero) tensor" where
  "zeros dims =
     (if list_ex (\<lambda>d. d < 0) dims then Inl RuntimeError
      else Inr \<lparr>shape = map nat dims, data = replicate (prod_list (map nat dims)) 0\<rparr>)"

text \<open>
  The effects of a call that are visible on the device, in the order in which they happen:
  the allocation of a zero-filled tensor of the given sizes, and the launch of a kernel
  (its name, the block size, the grid size and the element count it is given).
\<close>

datatype event = Alloc "nat list" | Launch string int int int

subsection \<open>\<^verbatim>\<open>t_ntuple\<close>, \<^verbatim>\<open>t_pair\<close> (lines 15 to 23)\<close>

text \<open>
  The argument of \<^verbatim>\<open>parse\<close> is either an instance of \<^verbatim>\<open>Iterable\<close> (a sequence of
  values) or any other value.
\<close>

datatype 'a pyarg = Scalar 'a | Iterable "'a list"

definition t_ntuple :: "nat \<Rightarrow> 'a pyarg \<Rightarrow> 'a list" where
  "t_ntuple n x = (case x of Iterable xs \<Rightarrow> xs | Scalar v \<Rightarrow> replicate n v)"

definition t_pair :: "'a pyarg \<Rightarrow> 'a list" where
  "t_pair = t_ntuple 2"

subsection \<open>\<^verbatim>\<open>GET_BLOCKS\<close> (lines 13, 36 and 37)\<close>

definition CUDA_NUM_THREADS :: int where
  "CUDA_NUM_THREADS = 1024"

definition GET_BLOCKS :: "int \<Rightarrow> int \<Rightarrow> py_error + int" where
  "GET_BLOCKS N K = (if K = 0 then Inl ZeroDivisionError else Inr ((N + K - 1) div K))"

subsection \<open>\<^verbatim>\<open>psRoI_Info\<close> (lines 42 to 56)\<close>

record psRoI_Info =
  outh :: "int option"
  outw :: "int option"
  spatial_scale :: "real option"
  group_size :: "int option"

text \<open>The constructor leaves all four attributes \<^verbatim>\<open>None\<close>.\<close>

definition psRoI_Info_init :: psRoI_Info where
  "psRoI_Info_init = \<lparr>outh = None, outw = None, spatial_scale = None, group_size = None\<rparr>"

text \<open>
  \<^verbatim>\<open>set_para\<close> mutates \<^verbatim>\<open>self\<close>, so the model returns the object as it is when the call
  ends, also when the call ends in an exception. Line 50 evaluates \<^verbatim>\<open>pool_size[0]\<close> and
  \<^verbatim>\<open>pool_size[1]\<close> (an \<^verbatim>\<open>IndexError\<close> for a shorter sequence, before anything is stored)
  and stores them with the scale; only then does line 52 compare them.
\<close>

definition set_para ::
  "psRoI_Info \<Rightarrow> int list \<Rightarrow> real \<Rightarrow> int option \<Rightarrow> (py_error + unit) \<times> psRoI_Info" where
  "set_para self pool_size scale gs =
     (case pool_size of
        p0 # p1 # _ \<Rightarrow>
          (let self1 = self\<lparr>outh := Some p0, outw := Some p1, spatial_scale := Some scale\<rparr>
           in case gs of
                None \<Rightarrow>
                  if p0 \<noteq> p1 then (Inl ValueError, self1)
                  else (Inr (), self1\<lparr>group_size := Some p0\<rparr>)
              | Some g \<Rightarrow> (Inr (), self1\<lparr>group_size := Some g\<rparr>))
      | _ \<Rightarrow> (Inl IndexError, self))"

subsection \<open>\<^verbatim>\<open>PSRoIPooling2D.__init__\<close> (lines 160 to 169)\<close>

record PSRoIPooling2D =
  RoI_Info :: psRoI_Info

text \<open>An exception in the constructor leaves the caller without a module.\<close>

definition PSRoIPooling2D_init ::
  "int pyarg \<Rightarrow> real \<Rightarrow> int option \<Rightarrow> py_error + PSRoIPooling2D" where
  "PSRoIPooling2D_init pool_size scale gs =
     (case set_para psRoI_Info_init (t_pair pool_size) scale gs of
        (Inl e, _) \<Rightarrow> Inl e
      | (Inr _, info) \<Rightarrow> Inr \<lparr>RoI_Info = info\<rparr>)"

subsection \<open>The launch of a kernel and the two kernels\<close>

text \<open>
  Modelled from the spec: the dispatcher and the kernels \<^verbatim>\<open>PSROIPoolForward\<close> and
  \<^verbatim>\<open>PSROIPoolBackward\<close>, whose source \<^verbatim>\<open>utils/psroi_cuda.py\<close> is not among the sources
  modelled here. The spec's dispatcher gives one unit of work to one element: of the
  \<open>grid * block\<close> threads of a launch, thread \<open>i\<close> works on element \<open>i\<close> when \<open>i\<close> is below
  the element count, and does nothing otherwise. The threads of the forward kernel write
  disjoint cells and those of the backward kernel add to shared cells, so running them one
  after the other in the order of their indices gives the result of any other order.
\<close>

definition launch :: "int \<Rightarrow> int \<Rightarrow> int \<Rightarrow> (int \<Rightarrow> 's \<Rightarrow> 's) \<Rightarrow> 's \<Rightarrow> 's" where
  "launch grid block nthreads body s =
     fold (\<lambda>i s. if int i < nthreads then body (int i) s else s) [0..<nat (grid * block)] s"

text \<open>
  Modelled from the spec: the geometry both kernels share (section 4.2, steps 1 to 3).
  The regions are the rows \<open>[batch, x0, y0, x1, y1]\<close> of a contiguous array. The spec's
  \<open>round\<close> is \<^const>\<open>round\<close>, the nearest integer with halves rounded upwards (the spec
  does not say how halves are rounded), and its \<open>clip\<close> is \<open>clip\<close> below.
\<close>

record geom =
  g_scale :: real
  g_height :: int
  g_width :: int
  g_outh :: int
  g_outw :: int
  g_out_dim :: int
  g_rois :: "real list"

text \<open>Modelled from the spec: \<open>clip(v, lo, hi)\<close> of step 3.\<close>

definition clip :: "int \<Rightarrow> int \<Rightarrow> int \<Rightarrow> int" where
  "clip v lo hi = min (max v lo) hi"

text \<open>
  Modelled from the spec: the element with flat index \<open>index\<close> of an array of shape
  \<open>(N, out_dim, outH, outW)\<close> is \<open>(n, c_out, ph, pw)\<close>.
\<close>

definition unravel :: "geom \<Rightarrow> int \<Rightarrow> int \<times> int \<times> int \<times> int" where
  "unravel g index =
     (let pw = index mod g_outw g;
          ph = (index div g_outw g) mod g_outh g;
          c_out = (index div g_outw g div g_outh g) mod g_out_dim g;
          n = index div g_outw g div g_outh g div g_out_dim g
      in (n, c_out, ph, pw))"

text \<open>
  Modelled from the spec: the batch index of region \<open>n\<close> and the clipped pixel window
  \<open>(hstart, hend, wstart, wend)\<close> of its bin \<open>(ph, pw)\<close>.
\<close>

definition roi_batch :: "geom \<Rightarrow> int \<Rightarrow> int" where
  "roi_batch g n = \<lfloor>g_rois g ! nat (5 * n)\<rfloor>"

definition bin_window :: "geom \<Rightarrow> int \<Rightarrow> int \<Rightarrow> int \<Rightarrow> int \<times> int \<times> int \<times> int" where
  "bin_window g n ph pw =
     (let x0 = g_rois g ! nat (5 * n + 1);
          y0 = g_rois g ! nat (5 * n + 2);
          x1 = g_rois g ! nat (5 * n + 3);
          y1 = g_rois g ! nat (5 * n + 4);
          rs_w = round (x0 * g_scale g);
          rs_h = round (y0 * g_scale g);
          re_w = round (x1 * g_scale g);
          re_h = round (y1 * g_scale g);
          roi_w = max (re_w - rs_w) 1;
          roi_h = max (re_h - rs_h) 1;
          bin_w = real_of_int roi_w / real_of_int (g_outw g);
          bin_h = real_of_int roi_h / real_of_int (g_outh g);
          hstart = clip \<lfloor>real_of_int rs_h + real_of_int ph * bin_h\<rfloor> 0 (g_height g);
          hend = clip \<lceil>real_of_int rs_h + real_of_int (ph + 1) * bin_h\<rceil> 0 (g_height g);
          wstart = clip \<lfloor>real_of_int rs_w + real_of_int pw * bin_w\<rfloor> 0 (g_width g);
          wend = clip \<lceil>real_of_int rs_w + real_of_int (pw + 1) * bin_w\<rceil> 0 (g_width g)
      in (hstart, hend, wstart, wend))"

text \<open>Modelled from the spec: the test of step 5 for a degenerate bin.\<close>

definition empty_window :: "int \<times> int \<times> int \<times> int \<Rightarrow> bool" where
  "empty_window win = (case win of (hstart, hend, wstart, wend) \<Rightarrow> hstart \<ge> hend \<or> wstart \<ge> wend)"

text \<open>Modelled from the spec: the source channel of step 4.\<close>

definition source_channel :: "int \<Rightarrow> int \<Rightarrow> int \<Rightarrow> int \<Rightarrow> int \<Rightarrow> int" where
  "source_channel gsize out_dim c_out ph pw = (ph * gsize + pw) * out_dim + c_out"

text \<open>
  Modelled from the spec: the pixels \<open>(h, w)\<close> of a window, \<open>hstart \<le> h < hend\<close> and
  \<open>wstart \<le> w < wend\<close>, and the flat index of \<open>FeatureMap[batch, c, h, w]\<close> in a
  contiguous array of shape \<open>(B, C, H, W)\<close>.
\<close>

definition window_pixels :: "int \<times> int \<times> int \<times> int \<Rightarrow> (int \<times> int) list" where
  "window_pixels win =
     (case win of (hstart, hend, wstart, wend) \<Rightarrow> List.product [hstart..hend - 1] [wstart..wend - 1])"

definition pixel_index :: "int \<Rightarrow> geom \<Rightarrow> int \<Rightarrow> int \<Rightarrow> int \<times> int \<Rightarrow> nat" where
  "pixel_index channels g batch c hw =
     (case hw of (h, w) \<Rightarrow> nat (((batch * channels + c) * g_height g + h) * g_width g + w))"

text \<open>
  Modelled from the spec: what the forward kernel computes for one element (steps 4 to 6),
  the value of the output cell and the source channel it records.
\<close>

definition forward_element :: "real list \<Rightarrow> int \<Rightarrow> int \<Rightarrow> geom \<Rightarrow> int \<Rightarrow> real \<times> int" where
  "forward_element bottom_data channels gsize g index =
     (case unravel g index of (n, c_out, ph, pw) \<Rightarrow>
        (let win = bin_window g n ph pw;
             c_src = source_channel gsize (g_out_dim g) c_out ph pw;
             pix = window_pixels win
         in if empty_window win then (0, c_src)
            else (sum_list (map (\<lambda>hw. bottom_data ! pixel_index channels g (roi_batch g n) c_src hw) pix)
                    / real (length pix), c_src)))"

definition PSROIPoolForward ::
  "real list \<Rightarrow> int \<Rightarrow> int \<Rightarrow> geom \<Rightarrow> int \<Rightarrow> real list \<times> int list \<Rightarrow> real list \<times> int list" where
  "PSROIPoolForward bottom_data channels gsize g index bufs =
     (case bufs of (top_data, mapping_channel) \<Rightarrow>
        (case forward_element bottom_data channels gsize g index of (v, c_src) \<Rightarrow>
           (top_data[nat index := v], mapping_channel[nat index := c_src])))"

text \<open>
  Modelled from the spec: what the backward kernel does for one element (section 4.3). The
  source channel is the one the forward kernel recorded; the gradient of the element,
  divided by the area of its window, is added to every pixel of the window.
\<close>

definition PSROIPoolBackward ::
  "real list \<Rightarrow> int list \<Rightarrow> int \<Rightarrow> geom \<Rightarrow> int \<Rightarrow> real list \<Rightarrow> real list" where
  "PSROIPoolBackward top_diff mapping_channel channels g index bottom_diff =
     (case unravel g index of (n, c_out, ph, pw) \<Rightarrow>
        (let win = bin_window g n ph pw;
             c_src = mapping_channel ! nat index;
             pix = window_pixels win
         in if empty_window win then bottom_diff
            else fold (\<lambda>hw d. d[pixel_index channels g (roi_batch g n) c_src hw :=
                                  d ! pixel_index channels g (roi_batch g n) c_src hw
                                    + top_diff ! nat index / real (length pix)])
                   pix bottom_diff))"

subsection \<open>\<^verbatim>\<open>psRoI.forward\<close> (lines 61 to 114)\<close>

text \<open>What \<^verbatim>\<open>ctx.save_for_backward\<close> keeps: the five tensors of lines 108 to 112.\<close>

record ctx =
  saved_int_info :: "int list"
  saved_in_size :: "int list"
  saved_spatial_scale :: real
  saved_rois :: "real tensor"
  saved_mapping_channel :: "int tensor"

text \<open>
  The call takes the trace of the effects so far and returns it extended. Line 74 unpacks
  the size of \<^verbatim>\<open>x\<close> into four names (a \<^verbatim>\<open>ValueError\<close> for another number of dimensions),
  line 75 reads the first size of \<^verbatim>\<open>rois\<close> (an \<^verbatim>\<open>IndexError\<close> when it has none), line 76
  multiplies the group size with itself (a \<^verbatim>\<open>TypeError\<close> while it is \<^verbatim>\<open>None\<close>) and takes
  the remainder (a \<^verbatim>\<open>ZeroDivisionError\<close> for zero). Line 80 allocates the output (a
  \<^verbatim>\<open>TypeError\<close> for a size that is \<^verbatim>\<open>None\<close>) and line 82 the channel mapping. With the
  scale still \<^verbatim>\<open>None\<close>, \<^verbatim>\<open>cp.float32\<close> of line 87 yields a number and the kernel is
  launched, and \<^verbatim>\<open>torch.tensor\<close> of line 112 then raises \<^verbatim>\<open>RuntimeError\<close>. The launch
  itself is taken to succeed.
\<close>

definition forward ::
  "event list \<Rightarrow> real tensor \<Rightarrow> real tensor \<Rightarrow> psRoI_Info
     \<Rightarrow> (py_error + real tensor \<times> ctx) \<times> event list" where
  "forward tr x rois Info =
     (case map int (shape x) of
        [B, C, H, W] \<Rightarrow>
          (case shape rois of
             [] \<Rightarrow> (Inl IndexError, tr)
           | N # _ \<Rightarrow>
             (case group_size Info of
                None \<Rightarrow> (Inl TypeError, tr)
              | Some gs \<Rightarrow>
                if gs * gs = 0 then (Inl ZeroDivisionError, tr)
                else if C mod (gs * gs) \<noteq> 0 then (Inl ValueError, tr)
                else
                  (let out_dim = C div (gs * gs) in
                   case (outh Info, outw Info) of
                     (Some oh, Some ow) \<Rightarrow>
                       (case zeros [int N, out_dim, oh, ow] of
                          Inl e \<Rightarrow> (Inl e, tr)
                        | Inr output \<Rightarrow>
                          (let tr1 = tr @ [Alloc (shape output)];
                               count = int (numel output)
                           in case zeros [count] of
                                Inl e \<Rightarrow> (Inl e, tr1)
                              | Inr mapping_channel \<Rightarrow>
                                (let tr2 = tr1 @ [Alloc (shape mapping_channel)] in
                                 case GET_BLOCKS count CUDA_NUM_THREADS of
                                   Inl e \<Rightarrow> (Inl e, tr2)
                                 | Inr blocks \<Rightarrow>
                                   (let tr3 = tr2 @ [Launch ''PSROIPoolForward''
                                                      CUDA_NUM_THREADS blocks count]
                                    in case spatial_scale Info of
                                         None \<Rightarrow> (Inl RuntimeError, tr3)
                                       | Some scale \<Rightarrow>
                                         (let g = \<lparr>g_scale = scale, g_height = H, g_width = W,
                                                   g_outh = oh, g_outw = ow, g_out_dim = out_dim,
                                                   g_rois = data rois\<rparr>;
                                              bufs = launch blocks CUDA_NUM_THREADS count
                                                       (PSROIPoolForward (data x) C gs g)
                                                       (data output, data mapping_channel)
                                          in (Inr (output\<lparr>data := fst bufs\<rparr>,
                                                   \<lparr>saved_int_info = [count, int N, out_dim, oh, ow],
                                                    saved_in_size = [B, C, H, W],
                                                    saved_spatial_scale = scale,
                                                    saved_rois = rois,
                                                    saved_mapping_channel =
                                                      mapping_channel\<lparr>data := snd bufs\<rparr>\<rparr>),
                                              tr3))))))
                   | _ \<Rightarrow> (Inl TypeError, tr))))
      | _ \<Rightarrow> (Inl ValueError, tr))"

subsection \<open>\<^verbatim>\<open>psRoI.backward\<close> (lines 117 to 157)\<close>

text \<open>
  The three results are the gradients for \<^verbatim>\<open>x\<close>, \<^verbatim>\<open>rois\<close> and \<^verbatim>\<open>Info\<close>; \<^verbatim>\<open>None\<close> is
  \<open>None\<close>. Lines 132 and 134 unpack the saved lists into five and four names (a
  \<^verbatim>\<open>ValueError\<close> for another length). The grid of the launch comes from the number of
  elements of \<^verbatim>\<open>grad_output\<close>, the element count given to the kernel is the saved one.
\<close>

definition backward ::
  "event list \<Rightarrow> ctx \<Rightarrow> real tensor option
     \<Rightarrow> (py_error + real tensor option \<times> real tensor option \<times> real tensor option) \<times> event list" where
  "backward tr c grad_output =
     (case grad_output of
        None \<Rightarrow> (Inr (None, None, None), tr)
      | Some grad \<Rightarrow>
        (case saved_int_info c of
           [count, N, out_dim, oh, ow] \<Rightarrow>
             (case saved_in_size c of
                [B, C, H, W] \<Rightarrow>
                  (case zeros [B, C, H, W] of
                     Inl e \<Rightarrow> (Inl e, tr)
                   | Inr grad_input \<Rightarrow>
                     (let tr1 = tr @ [Alloc (shape grad_input)] in
                      case GET_BLOCKS (int (numel grad)) CUDA_NUM_THREADS of
                        Inl e \<Rightarrow> (Inl e, tr1)
                      | Inr blocks \<Rightarrow>
                        (let g = \<lparr>g_scale = saved_spatial_scale c, g_height = H, g_width = W,
                                  g_outh = oh, g_outw = ow, g_out_dim = out_dim,
                                  g_rois = data (saved_rois c)\<rparr>;
                             diff = launch blocks CUDA_NUM_THREADS count
                                      (PSROIPoolBackward (data grad)
                                         (data (saved_mapping_channel c)) C g)
                                      (data grad_input)
                         in (Inr (Some (grad_input\<lparr>data := diff\<rparr>), None, None),
                             tr1 @ [Launch ''PSROIPoolBackward'' CUDA_NUM_THREADS blocks count]))))
              | _ \<Rightarrow> (Inl ValueError, tr))
         | _ \<Rightarrow> (Inl ValueError, tr)))"

subsection \<open>\<^verbatim>\<open>PSRoIPooling2D.forward\<close> (lines 171 to 180)\<close>

definition module_forward ::
  "event list \<Rightarrow> PSRoIPooling2D \<Rightarrow> real tensor \<Rightarrow> real tensor
     \<Rightarrow> (py_error + real tensor \<times> ctx) \<times> event list" where
  "module_forward tr m x rois = forward tr x rois (RoI_Info m)"

subsection \<open>Example inputs\<close>

text \<open>
  A feature map of shape \<open>(1, 4, 2, 2)\<close> whose channel \<open>c\<close> holds \<open>c + 1\<close> everywhere, two
  regions (the whole map, and a square that lies outside of it), and the configuration
  \<^verbatim>\<open>PSRoIPooling2D(2, 1.0)\<close> builds.
\<close>

definition x_small :: "real tensor" where
  "x_small = \<lparr>shape = [1, 4, 2, 2], data = [1, 1, 1, 1, 2, 2, 2, 2, 3, 3, 3, 3, 4, 4, 4, 4]\<rparr>"

definition rois_small :: "real tensor" where
  "rois_small = \<lparr>shape = [2, 5], data = [0, 0, 0, 2, 2, 0, 5, 5, 7, 7]\<rparr>"

definition Info_small :: psRoI_Info where
  "Info_small = \<lparr>outh = Some 2, outw = Some 2, spatial_scale = Some 1, group_size = Some 2\<rparr>"

definition out_small :: "real tensor" where
  "out_small = \<lparr>shape = [2, 1, 2, 2], data = [1, 2, 3, 4, 0, 0, 0, 0]\<rparr>"

definition ctx_small :: ctx where
  "ctx_small =
     \<lparr>saved_int_info = [8, 2, 1, 2, 2], saved_in_size = [1, 4, 2, 2],
      saved_spatial_scale = 1, saved_rois = rois_small,
      saved_mapping_channel = \<lparr>shape = [8], data = [0, 1, 2, 3, 0, 1, 2, 3]\<rparr>\<rparr>"

definition geom_small :: geom where
  "geom_small =
     \<lparr>g_scale = 1, g_height = 2, g_width = 2, g_outh = 2, g_outw = 2, g_out_dim = 1,
      g_rois = data rois_small\<rparr>"

definition grad_small :: "real tensor" where
  "grad_small = \<lparr>shape = [2, 1, 2, 2], data = [1, 1, 1, 1, 1, 1, 1, 1]\<rparr>"

definition grad_input_small :: "real tensor" where
  "grad_input_small =
     \<lparr>shape = [1, 4, 2, 2], data = [1, 0, 0, 0, 0, 1, 0, 0, 0, 0, 1, 0, 0, 0, 0, 1]\<rparr>"

text \<open>
  A feature map with one channel, one region, and the configuration
  \<^verbatim>\<open>PSRoIPooling2D(1, 1.0)\<close> builds.
\<close>

definition x_one :: "real tensor" where
  "x_one = \<lparr>shape = [1, 1, 2, 2], data = [1, 2, 3, 4]\<rparr>"

definition rois_one :: "real tensor" where
  "rois_one = \<lparr>shape = [1, 5], data = [0, 0, 0, 2, 2]\<rparr>"


definition geom_unit :: geom where
  "geom_unit =
     \<lparr>g_scale = 1, g_height = 2, g_width = 2, g_outh = 1, g_outw = 1, g_out_dim = 1,
      g_rois = data rois_one\<rparr>"

subsection \<open>Averages over a window, for comparison\<close>

text \<open>
  The spec's words for step 6: the arithmetic mean of \<open>FeatureMap[batch, ch, h, w]\<close> over
  the pixels of the window of bin \<open>(ph, pw)\<close> of region \<open>n\<close>, and zero for an empty window.
\<close>

definition channel_average ::
  "real list \<Rightarrow> int \<Rightarrow> geom \<Rightarrow> int \<Rightarrow> int \<Rightarrow> int \<Rightarrow> int \<Rightarrow> real" where
  "channel_average bottom_data channels g n ph pw ch =
     (let win = bin_window g n ph pw; pix = window_pixels win
      in if empty_window win then 0
         else sum_list (map (\<lambda>hw. bottom_data ! pixel_index channels g (roi_batch g n) ch hw) pix)
                / real (length pix))"

text \<open>
  The spec's words for the case of group size one: plain average RoI pooling per channel,
  where the element \<open>(n, c_out, ph, pw)\<close> is the mean of channel \<open>c_out\<close> itself.
\<close>

definition plain_average_element :: "real list \<Rightarrow> int \<Rightarrow> geom \<Rightarrow> int \<Rightarrow> real" where
  "plain_average_element bottom_data channels g index =
     (case unravel g index of (n, c_out, ph, pw) \<Rightarrow>
        channel_average bottom_data channels g n ph pw c_out)"

section \<open>Properties\<close>

subsection \<open>The launch and the kernels\<close>

lemma launch_covers:
  assumes "0 \<le> count" "count \<le> grid * block"
  shows "launch grid block count body s = fold (\<lambda>i. body (int i)) [0..<nat count] s"
proof -
  let ?f = "\<lambda>i s. if int i < count then body (int i) s else s"
  have le: "nat count \<le> nat (grid * block)" using assms by simp
  have split: "[0..<nat (grid * block)] = [0..<nat count] @ [nat count..<nat (grid * block)]"
    using le by (metis le_add_diff_inverse upt_add_eq_append zero_le)
  have tail: "fold ?f [nat count..<nat (grid * block)] = id"
    by (rule fold_id) (auto simp: fun_eq_iff)
  have head: "fold ?f [0..<nat count] s = fold (\<lambda>i. body (int i)) [0..<nat count] s"
    by (rule fold_cong) (auto simp: fun_eq_iff)
  show ?thesis
    unfolding launch_def split fold_append by (simp add: tail head)
qed

lemma GET_BLOCKS_ceiling: "GET_BLOCKS n CUDA_NUM_THREADS = Inr \<lceil>real_of_int n / 1024\<rceil>"
  unfolding GET_BLOCKS_def CUDA_NUM_THREADS_def by simp linarith

lemma GET_BLOCKS_covers: "GET_BLOCKS n CUDA_NUM_THREADS = Inr b \<Longrightarrow> n \<le> b * CUDA_NUM_THREADS"
  unfolding GET_BLOCKS_def CUDA_NUM_THREADS_def by (auto split: if_splits)

lemma forward_elem_fold:
  assumes "k \<le> length tp" "length mp = length tp"
  shows "fold (\<lambda>i. PSROIPoolForward bd C gs g (int i)) [0..<k] (tp, mp) =
           (map (\<lambda>i. if i < k then fst (forward_element bd C gs g (int i)) else tp ! i) [0..<length tp],
            map (\<lambda>i. if i < k then snd (forward_element bd C gs g (int i)) else mp ! i) [0..<length tp])"
  using assms
proof (induction k)
  case 0
  then show ?case by (simp add: map_nth) (metis map_nth)
next
  case (Suc k)
  then show ?case
    by (auto simp: PSROIPoolForward_def split: prod.splits intro!: nth_equalityI simp: nth_list_update less_Suc_eq)
qed

lemma PSROIPoolBackward_length:
  "length (PSROIPoolBackward td mp C g index d) = length d"
proof -
  have "length (fold (\<lambda>hw d. d[f hw := d ! f hw + v]) pix d) = length d" for f :: "int \<times> int \<Rightarrow> nat" and v :: real and pix
    by (induction pix arbitrary: d) auto
  then show ?thesis
    by (auto simp: PSROIPoolBackward_def Let_def split: prod.splits)
qed

lemma launch_backward_length:
  "length (launch grid block count (PSROIPoolBackward td mp C g) d) = length d"
proof -
  have "length (fold (\<lambda>i s. if int i < count then PSROIPoolBackward td mp C g (int i) s else s) xs d) = length d" for xs
    by (induction xs arbitrary: d) (auto simp: PSROIPoolBackward_length)
  then show ?thesis by (simp add: launch_def)
qed

subsection \<open>A call of \<^verbatim>\<open>forward\<close> that returns, and a call of \<^verbatim>\<open>backward\<close>\<close>

lemma forward_success:
  fixes gs oh ow :: int and B C H W N :: nat
  defines "od \<equiv> int C div (gs * gs)"
  defines "count \<equiv> int N * od * oh * ow"
  defines "g \<equiv> \<lambda>scale rois. \<lparr>g_scale = scale, g_height = int H, g_width = int W, g_outh = oh, g_outw = ow,
                 g_out_dim = od, g_rois = data rois\<rparr>"
  assumes x: "shape x = [B, C, H, W]" and r: "shape rois = N # rest"
    and gs: "group_size Info = Some gs" "gs \<noteq> 0" "int C mod (gs * gs) = 0"
    and o: "outh Info = Some oh" "outw Info = Some ow" "0 \<le> oh" "0 \<le> ow"
    and s: "spatial_scale Info = Some scale"
  shows "forward tr x rois Info =
    (Inr (\<lparr>shape = [N, nat od, nat oh, nat ow],
           data = map (\<lambda>i. fst (forward_element (data x) (int C) gs (g scale rois) (int i))) [0..<nat count]\<rparr>,
          \<lparr>saved_int_info = [count, int N, od, oh, ow],
           saved_in_size = [int B, int C, int H, int W],
           saved_spatial_scale = scale,
           saved_rois = rois,
           saved_mapping_channel =
             \<lparr>shape = [nat count],
              data = map (\<lambda>i. snd (forward_element (data x) (int C) gs (g scale rois) (int i))) [0..<nat count]\<rparr>\<rparr>),
     tr @ [Alloc [N, nat od, nat oh, nat ow], Alloc [nat count],
           Launch ''PSROIPoolForward'' CUDA_NUM_THREADS ((count + 1023) div 1024) count])"
proof -
  have gg: "0 < gs * gs" using gs(2) by (simp add: zero_less_mult_iff) linarith
  then have od0: "0 \<le> od" unfolding od_def by (simp add: pos_imp_zdiv_nonneg_iff)
  have cnt: "int (N * nat od * nat oh * nat ow) = count"
    unfolding count_def using od0 o(3,4) by simp
  have cnt0: "0 \<le> count" using cnt by linarith
  have ncnt: "N * nat od * nat oh * nat ow = nat count" using cnt by linarith
  have z1: "zeros [int N, od, oh, ow] =
      Inr \<lparr>shape = [N, nat od, nat oh, nat ow], data = replicate (nat count) (0::real)\<rparr>"
    using od0 o(3,4) ncnt by (simp add: zeros_def mult.assoc)
  have nm: "int (numel \<lparr>shape = [N, nat od, nat oh, nat ow], data = d\<rparr>) = count" for d :: "real list"
    using cnt by (simp add: numel_def mult.assoc)
  have z2: "zeros [count] = Inr \<lparr>shape = [nat count], data = replicate (nat count) (0::int)\<rparr>"
    using cnt0 by (simp add: zeros_def)
  have gb: "GET_BLOCKS count CUDA_NUM_THREADS = Inr ((count + 1023) div 1024)"
    by (simp add: GET_BLOCKS_def CUDA_NUM_THREADS_def)
  have cov: "count \<le> (count + 1023) div 1024 * CUDA_NUM_THREADS"
    unfolding CUDA_NUM_THREADS_def by linarith
  have l: "launch ((count + 1023) div 1024) CUDA_NUM_THREADS count
             (PSROIPoolForward (data x) (int C) gs (g scale rois))
             (replicate (nat count) 0, replicate (nat count) 0) =
           (map (\<lambda>i. fst (forward_element (data x) (int C) gs (g scale rois) (int i))) [0..<nat count],
            map (\<lambda>i. snd (forward_element (data x) (int C) gs (g scale rois) (int i))) [0..<nat count])"
    by (simp add: launch_covers [OF cnt0 cov] forward_elem_fold)
  have nz: "gs * gs \<noteq> 0" using gs(2) by simp
  show ?thesis
    unfolding forward_def x r gs(1) o(1,2) s
    by (simp add: gs(2) gs(3) Let_def z1 [unfolded od_def] nm [unfolded od_def] z2 gb
          l [unfolded g_def od_def] od_def g_def)
qed

lemma forward_Inr_conditions:
  assumes "forward tr x rois Info = (Inr res, tr')"
  shows "\<exists>B C H W N rest gs oh ow scale.
           shape x = [B, C, H, W] \<and> shape rois = N # rest \<and> group_size Info = Some gs \<and> gs \<noteq> 0 \<and>
           int C mod (gs * gs) = 0 \<and> outh Info = Some oh \<and> outw Info = Some ow \<and> 0 \<le> oh \<and> 0 \<le> ow \<and>
           spatial_scale Info = Some scale"
proof -
  from assms obtain B C H W where x: "shape x = [B, C, H, W]"
    by (auto simp: forward_def split: list.splits)
  from assms obtain N rest where r: "shape rois = N # rest"
    by (auto simp: forward_def x split: list.splits)
  from assms obtain gs where gs: "group_size Info = Some gs"
    by (auto simp: forward_def x r split: option.splits)
  from assms have g0: "gs \<noteq> 0" and dv: "int C mod (gs * gs) = 0"
    by (auto simp: forward_def x r gs split: if_splits)
  from assms obtain oh ow where o: "outh Info = Some oh" "outw Info = Some ow"
    by (auto simp: forward_def x r gs g0 dv Let_def split: option.splits)
  from assms have nn: "0 \<le> oh" "0 \<le> ow"
    by (auto simp: forward_def x r gs g0 dv o Let_def zeros_def split: if_splits)
  from assms obtain scale where s: "spatial_scale Info = Some scale"
    by (auto simp: forward_def x r gs g0 dv o Let_def split: option.splits sum.splits)
  show ?thesis
    apply (rule exI [of _ B], rule exI [of _ C], rule exI [of _ H], rule exI [of _ W])
    apply (rule exI [of _ N], rule exI [of _ rest], rule exI [of _ gs])
    apply (rule exI [of _ oh], rule exI [of _ ow], rule exI [of _ scale])
    using x r gs g0 dv o nn s by simp
qed

lemma backward_success:
  assumes i: "saved_int_info c = [count, N, out_dim, oh, ow]"
    and z: "saved_in_size c = [int B, int C, int H, int W]"
  shows "backward tr c (Some grad) =
    (Inr (Some \<lparr>shape = [B, C, H, W],
                data = launch ((int (numel grad) + 1023) div 1024) CUDA_NUM_THREADS count
                         (PSROIPoolBackward (data grad) (data (saved_mapping_channel c)) (int C)
                            \<lparr>g_scale = saved_spatial_scale c, g_height = int H, g_width = int W,
                             g_outh = oh, g_outw = ow, g_out_dim = out_dim,
                             g_rois = data (saved_rois c)\<rparr>)
                         (replicate (B * C * H * W) 0)\<rparr>, None, None),
     tr @ [Alloc [B, C, H, W],
           Launch ''PSROIPoolBackward'' CUDA_NUM_THREADS ((int (numel grad) + 1023) div 1024) count])"
  unfolding backward_def i z
  by (simp add: zeros_def GET_BLOCKS_def Let_def mult.assoc CUDA_NUM_THREADS_def add.commute)

lemma out_dim_nonneg: "gs \<noteq> 0 \<Longrightarrow> 0 \<le> int C div (gs * gs)"
proof -
  assume "gs \<noteq> 0"
  then have "0 < gs * gs" by (simp add: zero_less_mult_iff) linarith
  then show ?thesis by (simp add: pos_imp_zdiv_nonneg_iff)
qed

lemma forward_result_nth:
  fixes gs oh ow :: int and B C H W N :: nat
  assumes fw: "forward tr x rois Info = (Inr (out, c), tr')"
    and x: "shape x = [B, C, H, W]" and r: "shape rois = N # rest"
    and gs: "group_size Info = Some gs" and oh: "outh Info = Some oh" and ow: "outw Info = Some ow"
    and sc: "spatial_scale Info = Some scale"
    and i: "i < numel out"
  shows "(data out ! i, data (saved_mapping_channel c) ! i) =
           forward_element (data x) (int C) gs
             \<lparr>g_scale = scale, g_height = int H, g_width = int W, g_outh = oh, g_outw = ow,
              g_out_dim = int C div (gs * gs), g_rois = data rois\<rparr> (int i)"
proof -
  from forward_Inr_conditions [OF fw] x r gs oh ow sc
  have k: "gs \<noteq> 0" "int C mod (gs * gs) = 0" "0 \<le> oh" "0 \<le> ow"
    by auto
  note s = forward_success [OF x r gs k(1,2) oh ow k(3,4) sc, of tr]
  have od0: "0 \<le> int C div (gs * gs)"
    using k(1) by (rule out_dim_nonneg)
  from fw s have out: "shape out = [N, nat (int C div (gs * gs)), nat oh, nat ow]"
    by auto
  have "int (numel out) = int N * (int C div (gs * gs)) * oh * ow"
    unfolding numel_def out using od0 k(3,4) by (simp add: mult.assoc)
  then have "i < nat (int N * (int C div (gs * gs)) * oh * ow)"
    using i by linarith
  then show ?thesis
    using fw s by auto
qed

lemma forward_element_channel:
  "snd (forward_element bd C gs g index) =
     (case unravel g index of (n, c_out, ph, pw) \<Rightarrow> source_channel gs (g_out_dim g) c_out ph pw)"
  by (simp add: forward_element_def Let_def split: prod.splits)

lemma forward_element_empty:
  "unravel g index = (n, c_out, ph, pw) \<Longrightarrow> empty_window (bin_window g n ph pw) \<Longrightarrow>
     forward_element bd C gs g index = (0, source_channel gs (g_out_dim g) c_out ph pw)"
  by (simp add: forward_element_def Let_def)

lemma PSROIPoolBackward_empty:
  "unravel g index = (n, c_out, ph, pw) \<Longrightarrow> empty_window (bin_window g n ph pw) \<Longrightarrow>
     PSROIPoolBackward td mp C g index d = d"
  by (simp add: PSROIPoolBackward_def Let_def)

subsection \<open>The calls on the example inputs\<close>

lemma bin_window_small_0:
  "bin_window geom_small 0 0 0 = (0, 1, 0, 1)" "bin_window geom_small 0 0 1 = (0, 1, 1, 2)"
  "bin_window geom_small 0 1 0 = (1, 2, 0, 1)" "bin_window geom_small 0 1 1 = (1, 2, 1, 2)"
  by (simp_all add: bin_window_def geom_small_def rois_small_def Let_def clip_def)

lemma bin_window_small_1:
  "bin_window geom_small 1 0 0 = (2, 2, 2, 2)" "bin_window geom_small 1 0 1 = (2, 2, 2, 2)"
  "bin_window geom_small 1 1 0 = (2, 2, 2, 2)" "bin_window geom_small 1 1 1 = (2, 2, 2, 2)"
  by (simp_all add: bin_window_def geom_small_def rois_small_def Let_def clip_def)


lemma unravel_small_nth:
  "unravel geom_small 0 = (0, 0, 0, 0)" "unravel geom_small 1 = (0, 0, 0, 1)"
  "unravel geom_small 2 = (0, 0, 1, 0)" "unravel geom_small 3 = (0, 0, 1, 1)"
  "unravel geom_small 4 = (1, 0, 0, 0)" "unravel geom_small 5 = (1, 0, 0, 1)"
  "unravel geom_small 6 = (1, 0, 1, 0)" "unravel geom_small 7 = (1, 0, 1, 1)"
  by (simp_all add: unravel_def geom_small_def)

lemma forward_element_small:
  "map (\<lambda>i. forward_element (data x_small) 4 2 geom_small (int i)) [0..<8] =
     [(1, 0), (2, 1), (3, 2), (4, 3), (0, 0), (0, 1), (0, 2), (0, 3)]"
  by (simp add: upt_rec [of _ "numeral _"] forward_element_def unravel_small_nth
      bin_window_small_0 bin_window_small_1 empty_window_def window_pixels_def upto.simps
      source_channel_def pixel_index_def roi_batch_def)
    (simp add: geom_small_def x_small_def rois_small_def)

lemma forward_small:
  "forward [] x_small rois_small Info_small =
     (Inr (out_small, ctx_small),
      [Alloc [2, 1, 2, 2], Alloc [8], Launch ''PSROIPoolForward'' CUDA_NUM_THREADS 1 8])"
proof -
  have f: "map (\<lambda>i. fst (forward_element (data x_small) 4 2 geom_small (int i))) [0..<8] =
             [1, 2, 3, 4, 0, 0, 0, 0]"
    and m: "map (\<lambda>i. snd (forward_element (data x_small) 4 2 geom_small (int i))) [0..<8] =
             [0, 1, 2, 3, 0, 1, 2, 3]"
    using arg_cong [OF forward_element_small, of "map fst"]
      arg_cong [OF forward_element_small, of "map snd"]
    by (simp_all add: comp_def)
  have "forward [] x_small rois_small Info_small =
     (Inr (\<lparr>shape = [2, 1, 2, 2],
             data = map (\<lambda>i. fst (forward_element (data x_small) 4 2 geom_small (int i))) [0..<8]\<rparr>,
           \<lparr>saved_int_info = [8, 2, 1, 2, 2], saved_in_size = [1, 4, 2, 2],
            saved_spatial_scale = 1, saved_rois = rois_small,
            saved_mapping_channel = \<lparr>shape = [8],
              data = map (\<lambda>i. snd (forward_element (data x_small) 4 2 geom_small (int i))) [0..<8]\<rparr>\<rparr>),
      [Alloc [2, 1, 2, 2], Alloc [8], Launch ''PSROIPoolForward'' CUDA_NUM_THREADS 1 8])"
    using forward_success [where tr = "[]" and x = x_small and rois = rois_small
        and Info = Info_small and B = 1 and C = 4 and H = 2 and W = 2 and N = 2
        and rest = "[5]" and gs = 2 and oh = 2 and ow = 2 and scale = 1]
    by (simp add: x_small_def rois_small_def Info_small_def geom_small_def)
  then show ?thesis
    unfolding f m by (simp add: out_small_def ctx_small_def)
qed

lemma PSROIPoolBackward_small:
  fixes d :: "real list"
  defines "k \<equiv> PSROIPoolBackward (data grad_small) [0, 1, 2, 3, 0, 1, 2, 3] 4 geom_small"
  shows "k 0 d = d[0 := d ! 0 + 1]" "k 1 d = d[5 := d ! 5 + 1]"
    "k 2 d = d[10 := d ! 10 + 1]" "k 3 d = d[15 := d ! 15 + 1]"
    "k 4 d = d" "k 5 d = d" "k 6 d = d" "k 7 d = d"
  unfolding k_def
  by (simp_all add: PSROIPoolBackward_def unravel_small_nth bin_window_small_0
      bin_window_small_1 empty_window_def window_pixels_def upto.simps pixel_index_def
      roi_batch_def grad_small_def)
    (simp_all add: geom_small_def rois_small_def)

lemma backward_small:
  "backward [] ctx_small (Some grad_small) =
     (Inr (Some grad_input_small, None, None),
      [Alloc [1, 4, 2, 2], Launch ''PSROIPoolBackward'' CUDA_NUM_THREADS 1 8])"
proof -
  have l: "launch 1 CUDA_NUM_THREADS 8
             (PSROIPoolBackward (data grad_small) [0, 1, 2, 3, 0, 1, 2, 3] 4 geom_small)
             (replicate 16 0) = data grad_input_small"
    by (subst launch_covers)
      (simp_all add: CUDA_NUM_THREADS_def upt_rec [of _ "numeral _"] PSROIPoolBackward_small
        grad_input_small_def eval_nat_numeral)
  have "backward [] ctx_small (Some grad_small) =
     (Inr (Some \<lparr>shape = [1, 4, 2, 2],
                 data = launch 1 CUDA_NUM_THREADS 8
                          (PSROIPoolBackward (data grad_small) [0, 1, 2, 3, 0, 1, 2, 3] 4 geom_small)
                          (replicate 16 0)\<rparr>, None, None),
      [Alloc [1, 4, 2, 2], Launch ''PSROIPoolBackward'' CUDA_NUM_THREADS 1 8])"
    using backward_success [where tr = "[]" and c = ctx_small and grad = grad_small
        and count = 8 and N = 2 and out_dim = 1 and oh = 2 and ow = 2
        and B = 1 and C = 4 and H = 2 and W = 2]
    by (simp add: ctx_small_def geom_small_def numel_def grad_small_def)
  then show ?thesis
    unfolding l by (simp add: grad_input_small_def)
qed

lemma bin_window_unit: "bin_window geom_unit 0 0 0 = (0, 2, 0, 2)"
  by (simp add: bin_window_def geom_unit_def rois_one_def Let_def clip_def)

lemma unravel_unit: "unravel geom_unit 0 = (0, 0, 0, 0)"
  by (simp add: unravel_def geom_unit_def)


lemma plain_average_unit: "plain_average_element (data x_one) 1 geom_unit 0 = 5 / 2"
  by (simp add: plain_average_element_def channel_average_def unravel_unit bin_window_unit
      empty_window_def window_pixels_def upto.simps pixel_index_def roi_batch_def)
    (simp add: geom_unit_def x_one_def rois_one_def)


subsection \<open>Claim C1: the check of the channel count\<close>

text \<open>
  C1. For a call of \<^verbatim>\<open>forward\<close> on a feature map with \<open>C\<close> channels: when \<open>C\<close> is not a
  multiple of the square of the group size, the call raises \<^verbatim>\<open>ValueError\<close> with the
  trace of effects unchanged, so before any tensor is allocated and before any kernel is
  launched. (A group size of zero raises \<^verbatim>\<open>ZeroDivisionError\<close> at the same place.)
  Otherwise the call passes the check with \<open>out_dim = C div group_size\<^sup>2\<close>: it does not end
  in \<^verbatim>\<open>ValueError\<close>, and with both pool sizes set and not negative and the scale set
  it returns an output whose channel count is \<open>out_dim\<close>, allocated first.
\<close>

theorem forward_channel_check:
  assumes "shape x = [B, C, H, W]" "shape rois = N # rest" "group_size Info = Some gs"
  shows "(gs \<noteq> 0 \<and> int C mod (gs * gs) \<noteq> 0 \<longrightarrow> forward tr x rois Info = (Inl ValueError, tr)) \<and>
         (gs = 0 \<longrightarrow> forward tr x rois Info = (Inl ZeroDivisionError, tr)) \<and>
         (gs \<noteq> 0 \<and> int C mod (gs * gs) = 0 \<longrightarrow>
            fst (forward tr x rois Info) \<noteq> Inl ValueError \<and>
            (\<forall>oh ow scale.
               outh Info = Some oh \<and> outw Info = Some ow \<and> 0 \<le> oh \<and> 0 \<le> ow \<and>
               spatial_scale Info = Some scale \<longrightarrow>
               (\<exists>out c events.
                  forward tr x rois Info =
                    (Inr (out, c), tr @ Alloc [N, nat (int C div (gs * gs)), nat oh, nat ow] # events) \<and>
                  shape out = [N, nat (int C div (gs * gs)), nat oh, nat ow] \<and>
                  saved_int_info c ! 2 = int C div (gs * gs))))"
proof (intro conjI impI allI)
  assume "gs \<noteq> 0 \<and> int C mod (gs * gs) \<noteq> 0"
  then show "forward tr x rois Info = (Inl ValueError, tr)"
    by (simp add: forward_def assms)
next
  assume "gs = 0"
  then show "forward tr x rois Info = (Inl ZeroDivisionError, tr)"
    by (simp add: forward_def assms)
next
  assume "gs \<noteq> 0 \<and> int C mod (gs * gs) = 0"
  then show "fst (forward tr x rois Info) \<noteq> Inl ValueError"
    by (simp add: forward_def assms Let_def zeros_def GET_BLOCKS_def CUDA_NUM_THREADS_def
        split: option.splits)
next
  fix oh ow scale
  assume d: "gs \<noteq> 0 \<and> int C mod (gs * gs) = 0"
    and o: "outh Info = Some oh \<and> outw Info = Some ow \<and> 0 \<le> oh \<and> 0 \<le> ow \<and>
            spatial_scale Info = Some scale"
  have "forward tr x rois Info = (Inr (fst (projr (fst (forward tr x rois Info))),
            snd (projr (fst (forward tr x rois Info)))), snd (forward tr x rois Info))"
    using d o by (simp add: forward_success [OF assms(1,2,3)])
  then show "\<exists>out c events.
        forward tr x rois Info =
          (Inr (out, c), tr @ Alloc [N, nat (int C div (gs * gs)), nat oh, nat ow] # events) \<and>
        shape out = [N, nat (int C div (gs * gs)), nat oh, nat ow] \<and>
        saved_int_info c ! 2 = int C div (gs * gs)"
    using d o by (simp add: forward_success [OF assms(1,2,3)])
qed

theorem forward_channel_check_witness:
  "forward [] x_small rois_small (Info_small\<lparr>group_size := Some 3\<rparr>) = (Inl ValueError, []) \<and>
   forward [] x_small rois_small (Info_small\<lparr>group_size := Some 0\<rparr>) = (Inl ZeroDivisionError, []) \<and>
   (\<exists>out c events.
      forward [] x_small rois_small Info_small = (Inr (out, c), Alloc [2, 1, 2, 2] # events) \<and>
      shape out = [2, 1, 2, 2] \<and> saved_int_info c ! 2 = 1)"
  using forward_channel_check [of x_small 1 4 2 2 rois_small 2 "[5]"
      "Info_small\<lparr>group_size := Some 3\<rparr>" 3 "[]"]
    forward_channel_check [of x_small 1 4 2 2 rois_small 2 "[5]"
      "Info_small\<lparr>group_size := Some 0\<rparr>" 0 "[]"]
    forward_channel_check [of x_small 1 4 2 2 rois_small 2 "[5]" Info_small 2 "[]"]
  by (simp add: x_small_def rois_small_def Info_small_def)

subsection \<open>Claim C2: \<^verbatim>\<open>set_para\<close> and the group size\<close>

text \<open>
  C2, as stated, says that a call without group size and with \<open>outh \<noteq> outw\<close> fails and
  creates no configuration state. The call does fail, but line 50 has stored the two sizes
  and the scale in the object by then: on a fresh object and the pool size \<open>(2, 3)\<close> the
  call raises \<^verbatim>\<open>ValueError\<close> and leaves an object that is not the fresh one.
\<close>
theorem set_para_stores_before_check_counterexample:
  "set_para psRoI_Info_init [2, 3] 1 None =
     (Inl ValueError, \<lparr>outh = Some 2, outw = Some 3, spatial_scale = Some 1, group_size = None\<rparr>) \<and>
   snd (set_para psRoI_Info_init [2, 3] 1 None) \<noteq> psRoI_Info_init"
  by (simp add: set_para_def psRoI_Info_init_def)

text \<open>
  C2, amended. For a call without group size: if \<open>outh \<noteq> outw\<close> the call raises
  \<^verbatim>\<open>ValueError\<close> after it has stored \<open>outh\<close>, \<open>outw\<close> and the scale in the object, whose
  group size it leaves as it was, and the constructor of the module raises the same error
  and yields no module; if \<open>outh = outw\<close> the call succeeds and the group size is \<open>outh\<close>.
  A group size that is given is stored unchanged, whatever \<open>outh\<close> and \<open>outw\<close> are.
\<close>

theorem set_para_group_size:
  "(p0 \<noteq> p1 \<longrightarrow>
      set_para self (p0 # p1 # rest) s None =
        (Inl ValueError, self\<lparr>outh := Some p0, outw := Some p1, spatial_scale := Some s\<rparr>) \<and>
      PSRoIPooling2D_init (Iterable (p0 # p1 # rest)) s None = Inl ValueError) \<and>
   (p0 = p1 \<longrightarrow>
      set_para self (p0 # p1 # rest) s None =
        (Inr (), self\<lparr>outh := Some p0, outw := Some p1, spatial_scale := Some s,
                      group_size := Some p0\<rparr>)) \<and>
   set_para self (p0 # p1 # rest) s (Some g) =
     (Inr (), self\<lparr>outh := Some p0, outw := Some p1, spatial_scale := Some s,
                   group_size := Some g\<rparr>)"
  by (simp add: set_para_def PSRoIPooling2D_init_def t_pair_def t_ntuple_def)

theorem set_para_group_size_witness:
  "(2::int) \<noteq> 3 \<and>
   set_para psRoI_Info_init [2, 3] 1 None =
     (Inl ValueError, psRoI_Info_init\<lparr>outh := Some 2, outw := Some 3, spatial_scale := Some 1\<rparr>) \<and>
   PSRoIPooling2D_init (Iterable [2, 3]) 1 None = Inl ValueError \<and>
   set_para psRoI_Info_init [7, 7] 1 None =
     (Inr (), psRoI_Info_init\<lparr>outh := Some 7, outw := Some 7, spatial_scale := Some 1,
                               group_size := Some 7\<rparr>) \<and>
   set_para psRoI_Info_init [2, 3] 1 (Some 5) =
     (Inr (), psRoI_Info_init\<lparr>outh := Some 2, outw := Some 3, spatial_scale := Some 1,
                               group_size := Some 5\<rparr>)"
  using set_para_group_size [of 2 3 psRoI_Info_init "[]" 1 5]
    set_para_group_size [of 7 7 psRoI_Info_init "[]" 1 5]
  by simp

subsection \<open>Claim C3: the shapes of the output and of the gradient\<close>

text \<open>
  C3. The output of a call of \<^verbatim>\<open>forward\<close> that returns has the shape
  \<open>(N, out_dim, outh, outw)\<close>. A call of \<^verbatim>\<open>backward\<close> on the saved state and a gradient
  allocates a tensor of the shape of the feature map, launches the backward kernel on that
  tensor filled with zeros, and returns it: its shape and its number of elements are those
  of the original feature map.
\<close>

theorem shape_contract:
  assumes fw: "forward tr x rois Info = (Inr (out, c), tr')"
    and x: "shape x = [B, C, H, W]" and r: "shape rois = N # rest"
    and gs: "group_size Info = Some gs" and oh: "outh Info = Some oh" and ow: "outw Info = Some ow"
  shows "map int (shape out) = [int N, int C div (gs * gs), oh, ow] \<and>
         (\<exists>gi blocks count.
            backward tr2 c (Some grad) =
              (Inr (Some gi, None, None),
               tr2 @ [Alloc (shape x), Launch ''PSROIPoolBackward'' CUDA_NUM_THREADS blocks count]) \<and>
            shape gi = shape x \<and> length (data gi) = numel x \<and>
            data gi =
              launch blocks CUDA_NUM_THREADS count
                (PSROIPoolBackward (data grad) (data (saved_mapping_channel c)) (int C)
                   \<lparr>g_scale = saved_spatial_scale c, g_height = int H, g_width = int W,
                    g_outh = oh, g_outw = ow, g_out_dim = int C div (gs * gs),
                    g_rois = data (saved_rois c)\<rparr>)
                (replicate (numel x) 0))"
proof -
  from forward_Inr_conditions [OF fw] x r gs oh ow
  obtain scale where c: "gs \<noteq> 0" "int C mod (gs * gs) = 0" "0 \<le> oh" "0 \<le> ow"
    "spatial_scale Info = Some scale"
    by auto
  note s = forward_success [OF x r gs c(1,2) oh ow c(3,4,5), of tr]
  have od: "0 \<le> int C div (gs * gs)"
    using c(1) by (rule out_dim_nonneg)
  from fw s have out: "shape out = [N, nat (int C div (gs * gs)), nat oh, nat ow]"
    and i: "saved_int_info c =
        [int N * (int C div (gs * gs)) * oh * ow, int N, int C div (gs * gs), oh, ow]"
    and z: "saved_in_size c = [int B, int C, int H, int W]"
    by auto
  have nx: "numel x = B * C * H * W"
    by (simp add: numel_def x mult.assoc)
  have "map int (shape out) = [int N, int C div (gs * gs), oh, ow]"
    using out od c(3,4) by simp
  moreover have "length (launch b t n (PSROIPoolBackward td mp Cc g) (replicate (numel x) 0)) = numel x"
    for b t n td mp Cc g
    by (simp add: launch_backward_length)
  ultimately show ?thesis
    by (simp add: backward_success [OF i z] x nx)
qed

theorem shape_contract_witness:
  "map int (shape out_small) = [2, 1, 2, 2] \<and>
   (\<exists>gi blocks count.
      backward [] ctx_small (Some grad_small) =
        (Inr (Some gi, None, None),
         [Alloc [1, 4, 2, 2], Launch ''PSROIPoolBackward'' CUDA_NUM_THREADS blocks count]) \<and>
      shape gi = [1, 4, 2, 2] \<and> length (data gi) = 16)"
proof -
  have "shape x_small = [1, 4, 2, 2]" "shape rois_small = 2 # [5]"
    "group_size Info_small = Some 2" "outh Info_small = Some 2" "outw Info_small = Some 2"
    by (simp_all add: x_small_def rois_small_def Info_small_def)
  from shape_contract [OF forward_small this, of "[]" grad_small]
  show ?thesis
    by (simp add: x_small_def numel_def) blast
qed

subsection \<open>Claim C4: \<^verbatim>\<open>backward\<close> without a gradient\<close>

text \<open>
  C4, as stated, says that \<^verbatim>\<open>backward\<close> returns a zero gradient when \<^verbatim>\<open>grad_output\<close> is
  absent. Line 127 returns \<^verbatim>\<open>None\<close> for the gradient of the feature map: for the saved
  state of the example the result is no tensor at all, and so not the zero tensor of the
  shape \<open>(1, 4, 2, 2)\<close> of the feature map.
\<close>
theorem backward_None_counterexample:
  "fst (backward [] ctx_small None) = Inr (None, None, None) \<and>
   fst (backward [] ctx_small None)
     \<noteq> Inr (Some \<lparr>shape = [1, 4, 2, 2], data = replicate 16 0\<rparr>, None, None)"
  by (simp add: backward_def)

text \<open>
  C4, amended. When \<^verbatim>\<open>grad_output\<close> is absent, \<^verbatim>\<open>backward\<close> returns at once, without an
  error, without allocating a tensor and without launching a kernel (the trace of effects
  is unchanged), and all three gradients it returns are \<^verbatim>\<open>None\<close>.
\<close>

theorem backward_None_short_circuit:
  "backward tr c None = (Inr (None, None, None), tr)"
  by (simp add: backward_def)

subsection \<open>Claim C5: the source channel\<close>







subsection \<open>Claim C6: empty windows\<close>

text \<open>
  C6. For an element of the output of a call of \<^verbatim>\<open>forward\<close> that returns whose clipped
  window is empty (\<open>hstart \<ge> hend\<close> or \<open>wstart \<ge> wend\<close>), the output is exactly 0, the
  channel mapping still records the source channel, and the thread of the backward kernel
  for this element, run on the saved state, leaves the gradient of the feature map as it
  is.
\<close>

theorem empty_bin_is_zero:
  fixes gs oh ow :: int and B C H W N :: nat
  defines "od \<equiv> int C div (gs * gs)"
  defines "g \<equiv> \<lambda>scale rois. \<lparr>g_scale = scale, g_height = int H, g_width = int W, g_outh = oh,
                    g_outw = ow, g_out_dim = od, g_rois = data rois\<rparr>"
  assumes fw: "forward tr x rois Info = (Inr (out, c), tr')"
    and x: "shape x = [B, C, H, W]" and r: "shape rois = N # rest"
    and gs: "group_size Info = Some gs" and oh: "outh Info = Some oh" and ow: "outw Info = Some ow"
    and sc: "spatial_scale Info = Some scale"
    and i: "i < numel out"
    and u: "unravel (g scale rois) (int i) = (n, c_out, ph, pw)"
    and w: "empty_window (bin_window (g scale rois) n ph pw)"
  shows "data out ! i = 0 \<and>
         data (saved_mapping_channel c) ! i = source_channel gs od c_out ph pw \<and>
         PSROIPoolBackward top_diff (data (saved_mapping_channel c)) (int C)
           (g (saved_spatial_scale c) (saved_rois c)) (int i) bottom_diff = bottom_diff"
proof -
  note e = forward_result_nth [OF fw x r gs oh ow sc i, folded od_def]
  have "forward_element (data x) (int C) gs (g scale rois) (int i) =
      (0, source_channel gs od c_out ph pw)"
    using forward_element_empty [OF u w] by (simp add: g_def)
  with e have a: "data out ! i = 0"
    "data (saved_mapping_channel c) ! i = source_channel gs od c_out ph pw"
    by (simp_all add: g_def)
  from forward_Inr_conditions [OF fw] x r gs oh ow sc
  have k: "gs \<noteq> 0" "int C mod (gs * gs) = 0" "0 \<le> oh" "0 \<le> ow"
    by auto
  from fw forward_success [OF x r gs k(1,2) oh ow k(3,4) sc, of tr]
  have "saved_spatial_scale c = scale" "saved_rois c = rois"
    by auto
  then show ?thesis
    using a PSROIPoolBackward_empty [OF u w] by simp
qed

theorem empty_bin_is_zero_witness:
  "empty_window (bin_window geom_small 1 0 1) \<and>
   data out_small ! 5 = 0 \<and>
   data (saved_mapping_channel ctx_small) ! 5 = source_channel 2 1 0 0 1 \<and>
   PSROIPoolBackward (data grad_small) (data (saved_mapping_channel ctx_small)) 4 geom_small 5
     [1, 0, 0, 0, 0, 1, 0, 0, 0, 0, 1, 0, 0, 0, 0, 1] =
     [1, 0, 0, 0, 0, 1, 0, 0, 0, 0, 1, 0, 0, 0, 0, 1]"
proof -
  have h: "shape x_small = [1, 4, 2, 2]" "shape rois_small = 2 # [5]"
    "group_size Info_small = Some 2" "outh Info_small = Some 2" "outw Info_small = Some 2"
    "spatial_scale Info_small = Some 1"
    by (simp_all add: x_small_def rois_small_def Info_small_def)
  have i: "5 < numel out_small"
    by (simp add: numel_def out_small_def)
  have g: "\<lparr>g_scale = 1, g_height = int 2, g_width = int 2, g_outh = 2, g_outw = 2,
      g_out_dim = int 4 div (2 * 2), g_rois = data rois_small\<rparr> = geom_small"
    by (simp add: geom_small_def)
  have u: "unravel \<lparr>g_scale = 1, g_height = int 2, g_width = int 2, g_outh = 2, g_outw = 2,
      g_out_dim = int 4 div (2 * 2), g_rois = data rois_small\<rparr> (int 5) = (1, 0, 0, 1)"
    unfolding g by (simp add: unravel_small_nth)
  have w: "empty_window (bin_window \<lparr>g_scale = 1, g_height = int 2, g_width = int 2,
      g_outh = 2, g_outw = 2, g_out_dim = int 4 div (2 * 2), g_rois = data rois_small\<rparr> 1 0 1)"
    unfolding g by (simp add: bin_window_small_1 empty_window_def)
  from empty_bin_is_zero [OF forward_small h i u w,
      of "data grad_small" "[1, 0, 0, 0, 0, 1, 0, 0, 0, 0, 1, 0, 0, 0, 0, 1]"] w
  show ?thesis
    unfolding g by (simp add: ctx_small_def geom_small_def)
qed

subsection \<open>Claim C7: the saved state\<close>

text \<open>
  C7. A call of \<^verbatim>\<open>forward\<close> that returns saves the element count, \<open>N\<close>, \<open>out_dim\<close>,
  \<open>outh\<close>, \<open>outw\<close>, the shape of the feature map, the scale, the regions and the channel
  mapping, a flat array of \<open>N * out_dim * outh * outw\<close> elements. The saved state depends
  on the arguments of this call only, and \<^verbatim>\<open>backward\<close> gives the kernel exactly these
  values (with the gradient it is called with and the tensor it allocates).
\<close>

theorem saved_state:
  fixes gs oh ow :: int and B C H W N :: nat
  defines "od \<equiv> int C div (gs * gs)"
  defines "count \<equiv> int N * od * oh * ow"
  assumes fw: "forward tr x rois Info = (Inr (out, c), tr')"
    and x: "shape x = [B, C, H, W]" and r: "shape rois = N # rest"
    and gs: "group_size Info = Some gs" and oh: "outh Info = Some oh" and ow: "outw Info = Some ow"
    and sc: "spatial_scale Info = Some scale"
  shows "saved_int_info c = [count, int N, od, oh, ow] \<and>
         saved_in_size c = [int B, int C, int H, int W] \<and>
         saved_spatial_scale c = scale \<and>
         saved_rois c = rois \<and>
         shape (saved_mapping_channel c) = [nat count] \<and>
         int (length (data (saved_mapping_channel c))) = count \<and>
         count = int (numel out) \<and>
         fst (forward tr2 x rois Info) = Inr (out, c) \<and>
         backward tr3 c (Some grad) =
           (Inr (Some \<lparr>shape = [B, C, H, W],
                       data = launch ((int (numel grad) + 1023) div 1024) CUDA_NUM_THREADS count
                                (PSROIPoolBackward (data grad) (data (saved_mapping_channel c)) (int C)
                                   \<lparr>g_scale = scale, g_height = int H, g_width = int W,
                                    g_outh = oh, g_outw = ow, g_out_dim = od,
                                    g_rois = data rois\<rparr>)
                                (replicate (B * C * H * W) 0)\<rparr>, None, None),
            tr3 @ [Alloc [B, C, H, W],
                   Launch ''PSROIPoolBackward'' CUDA_NUM_THREADS
                     ((int (numel grad) + 1023) div 1024) count])"
proof -
  from forward_Inr_conditions [OF fw] x r gs oh ow sc
  have c: "gs \<noteq> 0" "int C mod (gs * gs) = 0" "0 \<le> oh" "0 \<le> ow"
    by auto
  note s = forward_success [OF x r gs c(1,2) oh ow c(3,4) sc]
  have od0: "0 \<le> od"
    unfolding od_def using c(1) by (rule out_dim_nonneg)
  have cnt0: "0 \<le> count"
    unfolding count_def using od0 c(3,4) by simp
  from fw s [of tr] have i: "saved_int_info c = [count, int N, od, oh, ow]"
    and z: "saved_in_size c = [int B, int C, int H, int W]"
    and p: "saved_spatial_scale c = scale" "saved_rois c = rois"
    and m: "shape (saved_mapping_channel c) = [nat count]"
      "length (data (saved_mapping_channel c)) = nat count"
    and out: "shape out = [N, nat od, nat oh, nat ow]"
    unfolding od_def count_def by auto
  have n: "count = int (numel out)"
    unfolding count_def numel_def out using od0 c(3,4) by (simp add: mult.assoc)
  have f2: "fst (forward tr2 x rois Info) = Inr (out, c)"
    using fw s [of tr] s [of tr2] by simp
  show ?thesis
    using i z p m cnt0 n f2 backward_success [OF i z, of tr3 grad] by simp
qed

theorem saved_state_witness:
  "saved_int_info ctx_small = [8, 2, 1, 2, 2] \<and>
   saved_in_size ctx_small = [1, 4, 2, 2] \<and>
   saved_spatial_scale ctx_small = 1 \<and>
   saved_rois ctx_small = rois_small \<and>
   shape (saved_mapping_channel ctx_small) = [8] \<and>
   length (data (saved_mapping_channel ctx_small)) = 8 \<and>
   numel out_small = 8 \<and>
   fst (forward [Alloc [3]] x_small rois_small Info_small) = Inr (out_small, ctx_small)"
proof -
  have "shape x_small = [1, 4, 2, 2]" "shape rois_small = 2 # [5]"
    "group_size Info_small = Some 2" "outh Info_small = Some 2" "outw Info_small = Some 2"
    "spatial_scale Info_small = Some 1"
    by (simp_all add: x_small_def rois_small_def Info_small_def)
  from saved_state [OF forward_small this, of "[Alloc [3]]"]
  show ?thesis by simp
qed

subsection \<open>Claim C8: the gradient of the feature map is the only gradient\<close>

text \<open>
  C8. Whenever \<^verbatim>\<open>backward\<close> returns, the gradients it returns for the regions and for the
  configuration are \<^verbatim>\<open>None\<close>; only the first of the three results can be a tensor.
\<close>
theorem backward_only_input_gradient:
  assumes "backward tr c grad_output = (Inr (gx, grois, ginfo), tr')"
  shows "grois = None \<and> ginfo = None"
  using assms
  by (auto simp: backward_def Let_def split: option.splits list.splits sum.splits)

theorem backward_only_input_gradient_witness:
  "snd (projr (fst (backward [] ctx_small (Some grad_small)))) = (None, None) \<and>
   snd (projr (fst (backward [] ctx_small None))) = (None, None)"
proof -
  have n: "backward [] ctx_small None = (Inr (None, None, None), [])"
    by (simp add: backward_def)
  show ?thesis
    using backward_only_input_gradient [OF backward_small] backward_only_input_gradient [OF n]
    by (simp add: backward_small n)
qed

subsection \<open>Claim C9: the grid covers every element\<close>

text \<open>
  C9. \<^verbatim>\<open>GET_BLOCKS(count)\<close> is the ceiling of \<open>count / 1024\<close>, so that many blocks of 1024
  threads are at least \<open>count\<close> threads, and a launch with that grid runs the body on
  each of the indices \<open>0, \<dots>, count - 1\<close> once. A call of \<^verbatim>\<open>forward\<close> that returns has
  launched the forward kernel with that grid over exactly
  \<open>count = N * out_dim * outh * outw\<close> elements, the number of elements of the output.
\<close>

theorem dispatch_covers:
  "GET_BLOCKS count CUDA_NUM_THREADS = Inr \<lceil>real_of_int count / 1024\<rceil> \<and>
   count \<le> \<lceil>real_of_int count / 1024\<rceil> * CUDA_NUM_THREADS \<and>
   (0 \<le> count \<longrightarrow>
      launch \<lceil>real_of_int count / 1024\<rceil> CUDA_NUM_THREADS count body s =
        fold (\<lambda>i. body (int i)) [0..<nat count] s) \<and>
   (forward tr x rois Info = (Inr (out, c), tr') \<and> shape x = [B, C, H, W] \<and>
    shape rois = N # rest \<and> group_size Info = Some gs \<and> outh Info = Some oh \<and>
    outw Info = Some ow \<longrightarrow>
      int (numel out) = int N * (int C div (gs * gs)) * oh * ow \<and>
      tr' = tr @ [Alloc (shape out), Alloc [numel out],
                  Launch ''PSROIPoolForward'' CUDA_NUM_THREADS
                    \<lceil>real_of_int (int (numel out)) / 1024\<rceil> (int (numel out))])"
proof (intro conjI impI)
  show gb: "GET_BLOCKS count CUDA_NUM_THREADS = Inr \<lceil>real_of_int count / 1024\<rceil>"
    by (rule GET_BLOCKS_ceiling)
  show cov: "count \<le> \<lceil>real_of_int count / 1024\<rceil> * CUDA_NUM_THREADS"
    using GET_BLOCKS_covers [OF gb] .
  show "launch \<lceil>real_of_int count / 1024\<rceil> CUDA_NUM_THREADS count body s =
      fold (\<lambda>i. body (int i)) [0..<nat count] s" if "0 \<le> count"
    using that cov by (rule launch_covers)
next
  assume a: "forward tr x rois Info = (Inr (out, c), tr') \<and> shape x = [B, C, H, W] \<and>
    shape rois = N # rest \<and> group_size Info = Some gs \<and> outh Info = Some oh \<and>
    outw Info = Some ow"
  then have fw: "forward tr x rois Info = (Inr (out, c), tr')"
    and x: "shape x = [B, C, H, W]" and r: "shape rois = N # rest"
    and gs: "group_size Info = Some gs" and oh: "outh Info = Some oh" and ow: "outw Info = Some ow"
    by simp_all
  from forward_Inr_conditions [OF fw] x r gs oh ow
  obtain scale where k: "gs \<noteq> 0" "int C mod (gs * gs) = 0" "0 \<le> oh" "0 \<le> ow"
    "spatial_scale Info = Some scale"
    by auto
  note s = forward_success [OF x r gs k(1,2) oh ow k(3,4,5), of tr]
  have od0: "0 \<le> int C div (gs * gs)"
    using k(1) by (rule out_dim_nonneg)
  from fw s have out: "shape out = [N, nat (int C div (gs * gs)), nat oh, nat ow]"
    by auto
  show n: "int (numel out) = int N * (int C div (gs * gs)) * oh * ow"
    unfolding numel_def out using od0 k(3,4) by (simp add: mult.assoc)
  have e: "numel out = nat (int N * (int C div (gs * gs)) * oh * ow)"
    using n by linarith
  have ce: "\<lceil>real_of_int (int N * (int C div (gs * gs)) * oh * ow) / 1024\<rceil> =
      (int N * (int C div (gs * gs)) * oh * ow + 1023) div 1024"
    by linarith
  have t: "tr' = tr @ [Alloc [N, nat (int C div (gs * gs)), nat oh, nat ow],
      Alloc [nat (int N * (int C div (gs * gs)) * oh * ow)],
      Launch ''PSROIPoolForward'' CUDA_NUM_THREADS
        ((int N * (int C div (gs * gs)) * oh * ow + 1023) div 1024)
        (int N * (int C div (gs * gs)) * oh * ow)]"
    using fw s by simp
  show "tr' = tr @ [Alloc (shape out), Alloc [numel out],
                  Launch ''PSROIPoolForward'' CUDA_NUM_THREADS
                    \<lceil>real_of_int (int (numel out)) / 1024\<rceil> (int (numel out))]"
    unfolding n ce unfolding t out e ..
qed

theorem dispatch_covers_witness:
  "GET_BLOCKS 1025 CUDA_NUM_THREADS = Inr 2 \<and> (1025::int) \<le> 2 * CUDA_NUM_THREADS \<and>
   launch 2 CUDA_NUM_THREADS 1025 (\<lambda>i s. i # s) [] = fold (\<lambda>i s. int i # s) [0..<1025] [] \<and>
   numel out_small = 8 \<and>
   snd (forward [] x_small rois_small Info_small) =
     [Alloc [2, 1, 2, 2], Alloc [8], Launch ''PSROIPoolForward'' CUDA_NUM_THREADS 1 8]"
proof -
  have c: "\<lceil>real_of_int 1025 / 1024\<rceil> = (2::int)" "\<lceil>real_of_int (int 8) / 1024\<rceil> = (1::int)"
    using GET_BLOCKS_ceiling [of 1025] GET_BLOCKS_ceiling [of 8]
    by (simp_all add: GET_BLOCKS_def CUDA_NUM_THREADS_def)
  have n: "numel out_small = 8" by (simp add: numel_def out_small_def)
  have h: "shape x_small = [1, 4, 2, 2]" "shape rois_small = 2 # [5]"
    "group_size Info_small = Some 2" "outh Info_small = Some 2" "outw Info_small = Some 2"
    by (simp_all add: x_small_def rois_small_def Info_small_def)
  show ?thesis
    using dispatch_covers [of 1025 "\<lambda>i s. i # s" "[]" "[]" x_small rois_small Info_small
        out_small ctx_small
        "[Alloc [2, 1, 2, 2], Alloc [8], Launch ''PSROIPoolForward'' CUDA_NUM_THREADS 1 8]"
        1 4 2 2 2 "[5]" 2 2 2]
    unfolding c n
    by (simp add: forward_small h)
qed

subsection \<open>Claim C10: the normalizer of the pool size\<close>

text \<open>
  C10. \<^verbatim>\<open>t_pair\<close> turns a value that is not iterable into the pair of that value with
  itself and returns an iterable value as it is. So the constructor of the module, given a
  scalar pool size \<open>p\<close>, configures \<open>outh = outw = p\<close> (and the group size \<open>p\<close> when none is
  given), and given a pair \<open>(h, w)\<close> it configures \<open>outh = h\<close> and \<open>outw = w\<close>.
\<close>
theorem t_pair_pool_size:
  "t_pair (Scalar v) = [v, v] \<and> t_pair (Iterable xs) = xs \<and>
   PSRoIPooling2D_init (Scalar p) s gs =
     Inr \<lparr>RoI_Info = \<lparr>outh = Some p, outw = Some p, spatial_scale = Some s,
                      group_size = Some (case gs of None \<Rightarrow> p | Some g \<Rightarrow> g)\<rparr>\<rparr> \<and>
   PSRoIPooling2D_init (Iterable [h, w]) s (Some g) =
     Inr \<lparr>RoI_Info = \<lparr>outh = Some h, outw = Some w, spatial_scale = Some s,
                      group_size = Some g\<rparr>\<rparr>"
  by (simp add: t_pair_def t_ntuple_def PSRoIPooling2D_init_def set_para_def psRoI_Info_init_def
      eval_nat_numeral split: option.splits)

theorem t_pair_pool_size_witness:
  "t_pair (Scalar (7::int)) = [7, 7] \<and> t_pair (Iterable [3, 5 :: int]) = [3, 5] \<and>
   PSRoIPooling2D_init (Scalar 7) (1 / 16) None =
     Inr \<lparr>RoI_Info = \<lparr>outh = Some 7, outw = Some 7, spatial_scale = Some (1 / 16),
                      group_size = Some 7\<rparr>\<rparr> \<and>
   PSRoIPooling2D_init (Iterable [3, 5]) (1 / 16) (Some 3) =
     Inr \<lparr>RoI_Info = \<lparr>outh = Some 3, outw = Some 5, spatial_scale = Some (1 / 16),
                      group_size = Some 3\<rparr>\<rparr>"
  using t_pair_pool_size [of "7::int" "[3, 5]" 7 "1 / 16" None 3 5 3] by simp

end
